theory Spec2Isabelle
  imports Complex_Main
begin

section \<open>JavaScript values\<close>

text \<open>
  The setters of \<^verbatim>\<open>CameraControl\<close> and \<^verbatim>\<open>SpotLight\<close> take any JavaScript value and
  coerce it with \<^verbatim>\<open>!!value\<close>, \<^verbatim>\<open>value !== false\<close>, \<^verbatim>\<open>value === undefined\<close> or
  \<^verbatim>\<open>value || default\<close>. A value is one of the language's eight types. A finite number
  is a \<open>real\<close> (every double is one; \<open>+0\<close> and \<open>-0\<close> are identified, which neither
  truthiness nor \<^verbatim>\<open>===\<close> can tell apart), the three other numbers are constructors of
  their own, and an object is its reference.
\<close>

datatype jsval =
    JUndefined
  | JNull
  | JBool bool
  | JNum real
  | JNaN
  | JPosInfinity
  | JNegInfinity
  | JBigInt int
  | JStr string
  | JSymbol nat
  | JObj nat

text \<open>\<^verbatim>\<open>ToBoolean\<close>: the falsy values are \<^verbatim>\<open>undefined\<close>, \<^verbatim>\<open>null\<close>, \<^verbatim>\<open>false\<close>, \<^verbatim>\<open>0\<close>,
  \<^verbatim>\<open>NaN\<close>, \<^verbatim>\<open>0n\<close> and the empty string.\<close>

fun truthy :: "jsval \<Rightarrow> bool" where
  "truthy JUndefined = False"
| "truthy JNull = False"
| "truthy (JBool b) = b"
| "truthy (JNum x) = (x \<noteq> 0)"
| "truthy JNaN = False"
| "truthy JPosInfinity = True"
| "truthy JNegInfinity = True"
| "truthy (JBigInt i) = (i \<noteq> 0)"
| "truthy (JStr s) = (s \<noteq> [])"
| "truthy (JSymbol n) = True"
| "truthy (JObj r) = True"

text \<open>\<^verbatim>\<open>a === b\<close>: equal values of the same type, except that \<^verbatim>\<open>NaN\<close> equals nothing.\<close>

definition strict_eq :: "jsval \<Rightarrow> jsval \<Rightarrow> bool" where
  "strict_eq a b = (a \<noteq> JNaN \<and> a = b)"

text \<open>\<^verbatim>\<open>!!value\<close>, \<^verbatim>\<open>a !== b\<close> and \<^verbatim>\<open>a || b\<close>.\<close>

definition not_not :: "jsval \<Rightarrow> jsval" where
  "not_not v = JBool (truthy v)"

definition strict_neq :: "jsval \<Rightarrow> jsval \<Rightarrow> jsval" where
  "strict_neq a b = JBool (\<not> strict_eq a b)"

definition js_or :: "jsval \<Rightarrow> jsval \<Rightarrow> jsval" where
  "js_or a b = (if truthy a then a else b)"

definition is_boolean :: "jsval \<Rightarrow> bool" where
  "is_boolean v = (case v of JBool b \<Rightarrow> True | _ \<Rightarrow> False)"

section \<open>CameraControl: the data\<close>

text \<open>
  \<^verbatim>\<open>this._configs\<close>. A field that a setter writes holds whatever the setter stored, so it
  is a \<open>jsval\<close>; the thresholds and rates that no method of the class writes keep the
  number of the object literal (a decimal literal such as \<^verbatim>\<open>0.1\<close> stands for the double
  nearest to it).
\<close>

record nav_configs =
  active :: jsval
  tapInterval :: real
  doubleTapInterval :: real
  tapDistanceThreshold :: real
  mousePanRate :: real
  keyboardPanRate :: real
  keyboardOrbitRate :: real
  touchRotateRate :: real
  touchPanRate :: real
  touchZoomRate :: real
  dollyRate :: jsval
  planView :: jsval
  firstPerson :: jsval
  constrainVertical :: jsval
  doublePickFlyTo :: jsval
  panRightClick :: jsval
  pivoting :: jsval
  dollyToPointer :: jsval
  dollyToPivot :: jsval
  rotationInertia :: jsval
  dollyInertia :: jsval
  pointerEnabled :: jsval
  keyboardLayout :: jsval

text \<open>\<^verbatim>\<open>this._states\<close>: written by the input handlers only.\<close>

record interaction_states =
  mouseCanvasPos :: "real list"
  mouseover :: bool
  inputFromMouse :: bool
  mouseDownClientX :: real
  mouseDownClientY :: real
  mouseDownCursorX :: real
  mouseDownCursorY :: real
  touchStartTime :: "real option"
  activeTouches :: "jsval list"
  tapStartPos :: "real list"
  tapStartTime :: real
  lastTapTime :: real

text \<open>
  \<^verbatim>\<open>this._updates\<close>. The object literal has six properties; \<^verbatim>\<open>_reset\<close> assigns to a
  seventh, \<^verbatim>\<open>dolyDelta\<close>, which the assignment creates: it is \<open>None\<close> while the object
  has no such property.
\<close>

record pending_updates =
  rotateDeltaX :: real
  rotateDeltaY :: real
  panDeltaX :: real
  panDeltaY :: real
  panDeltaZ :: real
  dollyDelta :: real
  dolyDelta :: "real option"

text \<open>
  The seven handler classes of \<^verbatim>\<open>lib/handlers\<close> are not among the sources. A handler is
  taken as a parameter: its transient state, of any type, and its \<^verbatim>\<open>reset\<close> method,
  \<open>None\<close> when the handler has none (\<^verbatim>\<open>if (handler.reset)\<close>).
\<close>

record 't handler =
  reset :: "('t \<Rightarrow> 't) option"
  transient :: 't

text \<open>
  Modelled from the spec: \<^verbatim>\<open>PivotController\<close> (\<^verbatim>\<open>lib/controllers/PivotController.js\<close> is
  not among the sources). The spec's pivot state is one of \<open>Inactive\<close>, \<open>Shown\<close>,
  \<open>Dragging\<close>, with a world position and a visual indicator; \<^verbatim>\<open>endPivot()\<close> takes
  \<open>Shown\<close> and \<open>Dragging\<close> to \<open>Inactive\<close>, and \<^verbatim>\<open>hidePivot()\<close> hides the indicator.
\<close>

datatype PivotState = Inactive | Shown | Dragging

record pivot_controller =
  pivotState :: PivotState
  pivotPos :: "real list"
  indicatorVisible :: bool

definition hidePivot :: "pivot_controller \<Rightarrow> pivot_controller" where
  "hidePivot p = p\<lparr>indicatorVisible := False\<rparr>"

definition endPivot :: "pivot_controller \<Rightarrow> pivot_controller" where
  "endPivot p = p\<lparr>pivotState := Inactive\<rparr>"

text \<open>
  The \<^verbatim>\<open>CameraControl\<close> object: its three shared objects, its handlers, its pivot
  controller, and the messages it has passed to \<^verbatim>\<open>this.error\<close>, oldest first.
  \<^verbatim>\<open>error\<close> is a method of \<^verbatim>\<open>Component\<close>, which is not among the sources; a call is
  recorded and the setter goes on, as the spec has it (a configuration error is logged
  and is not fatal). The pick and pan controllers, the flight animation and the camera
  updater are left out: no setter reaches them.
\<close>

record 't camera_control =
  configs :: nav_configs
  states :: interaction_states
  updates :: pending_updates
  handlers :: "'t handler list"
  pivotController :: pivot_controller
  errors :: "string list"

section \<open>CameraControl: reset and the setters\<close>

definition reset_handler :: "'t handler \<Rightarrow> 't handler" where
  "reset_handler h =
     (case reset h of None \<Rightarrow> h | Some r \<Rightarrow> h\<lparr>transient := r (transient h)\<rparr>)"

primrec reset_handlers :: "'t handler list \<Rightarrow> 't handler list" where
  "reset_handlers [] = []"
| "reset_handlers (h # hs) = reset_handler h # reset_handlers hs"

text \<open>\<^verbatim>\<open>_reset()\<close>: the loop over the handlers, then the five assignments, the last of
  them to \<^verbatim>\<open>dolyDelta\<close>.\<close>

definition CameraControl_reset :: "'t camera_control \<Rightarrow> 't camera_control" where
  "CameraControl_reset cc =
     cc\<lparr>handlers := reset_handlers (handlers cc),
        updates := (updates cc)\<lparr>panDeltaX := 0, panDeltaY := 0,
                     rotateDeltaX := 0, rotateDeltaY := 0, dolyDelta := Some 0\<rparr>\<rparr>"

definition set_active :: "jsval \<Rightarrow> 't camera_control \<Rightarrow> 't camera_control" where
  "set_active v cc =
     (let cc1 = CameraControl_reset cc
      in cc1\<lparr>configs := (configs cc1)\<lparr>active := strict_neq v (JBool False)\<rparr>\<rparr>)"

definition set_pointerEnabled :: "jsval \<Rightarrow> 't camera_control \<Rightarrow> 't camera_control" where
  "set_pointerEnabled v cc =
     (let cc1 = CameraControl_reset cc
      in cc1\<lparr>configs := (configs cc1)\<lparr>pointerEnabled := not_not v\<rparr>\<rparr>)"

definition set_pivoting :: "jsval \<Rightarrow> 't camera_control \<Rightarrow> 't camera_control" where
  "set_pivoting v cc = cc\<lparr>configs := (configs cc)\<lparr>pivoting := not_not v\<rparr>\<rparr>"

definition set_dollyToPointer :: "jsval \<Rightarrow> 't camera_control \<Rightarrow> 't camera_control" where
  "set_dollyToPointer v cc =
     (let c1 = (configs cc)\<lparr>dollyToPointer := not_not v\<rparr>
      in cc\<lparr>configs := (if truthy (dollyToPointer c1)
                         then c1\<lparr>dollyToPivot := JBool False\<rparr> else c1)\<rparr>)"

definition set_dollyToPivot :: "jsval \<Rightarrow> 't camera_control \<Rightarrow> 't camera_control" where
  "set_dollyToPivot v cc =
     (let c1 = (configs cc)\<lparr>dollyToPivot := not_not v\<rparr>
      in cc\<lparr>configs := (if truthy (dollyToPivot c1)
                         then c1\<lparr>dollyToPointer := JBool False\<rparr> else c1)\<rparr>)"

definition set_planView :: "jsval \<Rightarrow> 't camera_control \<Rightarrow> 't camera_control" where
  "set_planView v cc = cc\<lparr>configs := (configs cc)\<lparr>planView := not_not v\<rparr>\<rparr>"

definition set_firstPerson :: "jsval \<Rightarrow> 't camera_control \<Rightarrow> 't camera_control" where
  "set_firstPerson v cc =
     (let cc1 = cc\<lparr>configs := (configs cc)\<lparr>firstPerson := not_not v\<rparr>\<rparr>
      in if truthy (firstPerson (configs cc1))
         then cc1\<lparr>pivotController := endPivot (hidePivot (pivotController cc1))\<rparr>
         else cc1)"

definition set_constrainVertical :: "jsval \<Rightarrow> 't camera_control \<Rightarrow> 't camera_control" where
  "set_constrainVertical v cc =
     cc\<lparr>configs := (configs cc)\<lparr>constrainVertical := not_not v\<rparr>\<rparr>"

definition set_doublePickFlyTo :: "jsval \<Rightarrow> 't camera_control \<Rightarrow> 't camera_control" where
  "set_doublePickFlyTo v cc =
     cc\<lparr>configs := (configs cc)\<lparr>doublePickFlyTo := strict_neq v (JBool False)\<rparr>\<rparr>"

definition set_panRightClick :: "jsval \<Rightarrow> 't camera_control \<Rightarrow> 't camera_control" where
  "set_panRightClick v cc =
     cc\<lparr>configs := (configs cc)\<lparr>panRightClick := strict_neq v (JBool False)\<rparr>\<rparr>"

definition set_rotationInertia :: "jsval \<Rightarrow> 't camera_control \<Rightarrow> 't camera_control" where
  "set_rotationInertia v cc =
     cc\<lparr>configs := (configs cc)\<lparr>rotationInertia :=
            (if strict_eq v JUndefined then JNum 0.5 else v)\<rparr>\<rparr>"

definition set_dollyRate :: "jsval \<Rightarrow> 't camera_control \<Rightarrow> 't camera_control" where
  "set_dollyRate v cc = cc\<lparr>configs := (configs cc)\<lparr>dollyRate := js_or v (JNum 10.0)\<rparr>\<rparr>"

definition set_dollyInertia :: "jsval \<Rightarrow> 't camera_control \<Rightarrow> 't camera_control" where
  "set_dollyInertia v cc =
     cc\<lparr>configs := (configs cc)\<lparr>dollyInertia :=
            (if strict_eq v JUndefined then JNum 0.5 else v)\<rparr>\<rparr>"

definition unsupported_keyboardLayout :: string where
  "unsupported_keyboardLayout =
     ''Unsupported value for keyboardLayout - defaulting to ''
       @ [CHR 0x27] @ ''qwerty'' @ [CHR 0x27]"

definition set_keyboardLayout :: "jsval \<Rightarrow> 't camera_control \<Rightarrow> 't camera_control" where
  "set_keyboardLayout v cc =
     (let v1 = js_or v (JStr ''qwerty'')
      in if \<not> strict_eq v1 (JStr ''qwerty'') \<and> \<not> strict_eq v1 (JStr ''azerty'')
         then cc\<lparr>errors := errors cc @ [unsupported_keyboardLayout],
                 configs := (configs cc)\<lparr>keyboardLayout := JStr ''qwerty''\<rparr>\<rparr>
         else cc\<lparr>configs := (configs cc)\<lparr>keyboardLayout := v1\<rparr>\<rparr>)"

section \<open>CameraControl: the constructor and sequences of writes\<close>

definition initial_configs :: nav_configs where
  "initial_configs =
     \<lparr>active = JBool True,
      tapInterval = 150, doubleTapInterval = 325, tapDistanceThreshold = 4,
      mousePanRate = 0.1, keyboardPanRate = 0.02, keyboardOrbitRate = 0.02,
      touchRotateRate = 0.3, touchPanRate = 0.2, touchZoomRate = 0.2,
      dollyRate = JNum 10,
      planView = JBool False, firstPerson = JBool False, constrainVertical = JBool False,
      doublePickFlyTo = JBool True, panRightClick = JBool True,
      pivoting = JBool False, dollyToPointer = JBool False, dollyToPivot = JBool False,
      rotationInertia = JNum 0, dollyInertia = JNum 0,
      pointerEnabled = JBool True,
      keyboardLayout = JStr ''qwerty''\<rparr>"

definition initial_states :: interaction_states where
  "initial_states =
     \<lparr>mouseCanvasPos = [0, 0], mouseover = False, inputFromMouse = False,
      mouseDownClientX = 0, mouseDownClientY = 0,
      mouseDownCursorX = 0, mouseDownCursorY = 0,
      touchStartTime = None, activeTouches = [],
      tapStartPos = [0, 0], tapStartTime = - 1, lastTapTime = - 1\<rparr>"

definition initial_updates :: pending_updates where
  "initial_updates =
     \<lparr>rotateDeltaX = 0, rotateDeltaY = 0, panDeltaX = 0, panDeltaY = 0, panDeltaZ = 0,
      dollyDelta = 0, dolyDelta = None\<rparr>"

text \<open>A write to one of the fourteen properties that are stored in \<^verbatim>\<open>_configs\<close>
  (\<^verbatim>\<open>pivotElement\<close> and \<^verbatim>\<open>pivotPos\<close> are passed on to the pivot controller).\<close>

datatype setter_call =
    SetActive jsval
  | SetPointerEnabled jsval
  | SetPivoting jsval
  | SetDollyToPointer jsval
  | SetDollyToPivot jsval
  | SetPlanView jsval
  | SetFirstPerson jsval
  | SetConstrainVertical jsval
  | SetDoublePickFlyTo jsval
  | SetPanRightClick jsval
  | SetRotationInertia jsval
  | SetDollyRate jsval
  | SetDollyInertia jsval
  | SetKeyboardLayout jsval

fun do_write :: "setter_call \<Rightarrow> 't camera_control \<Rightarrow> 't camera_control" where
  "do_write (SetActive v) cc = set_active v cc"
| "do_write (SetPointerEnabled v) cc = set_pointerEnabled v cc"
| "do_write (SetPivoting v) cc = set_pivoting v cc"
| "do_write (SetDollyToPointer v) cc = set_dollyToPointer v cc"
| "do_write (SetDollyToPivot v) cc = set_dollyToPivot v cc"
| "do_write (SetPlanView v) cc = set_planView v cc"
| "do_write (SetFirstPerson v) cc = set_firstPerson v cc"
| "do_write (SetConstrainVertical v) cc = set_constrainVertical v cc"
| "do_write (SetDoublePickFlyTo v) cc = set_doublePickFlyTo v cc"
| "do_write (SetPanRightClick v) cc = set_panRightClick v cc"
| "do_write (SetRotationInertia v) cc = set_rotationInertia v cc"
| "do_write (SetDollyRate v) cc = set_dollyRate v cc"
| "do_write (SetDollyInertia v) cc = set_dollyInertia v cc"
| "do_write (SetKeyboardLayout v) cc = set_keyboardLayout v cc"

primrec do_writes :: "setter_call list \<Rightarrow> 't camera_control \<Rightarrow> 't camera_control" where
  "do_writes [] cc = cc"
| "do_writes (c # cs) cc = do_writes cs (do_write c cc)"

text \<open>
  The constructor, with the handlers and the pivot controller it creates as parameters.
  \<open>cfg\<close> reads a property of the configuration object, \<open>JUndefined\<close> for one it does not
  have. The writes are those of the constructor, in its order.
\<close>

definition constructor_writes :: "(string \<Rightarrow> jsval) \<Rightarrow> setter_call list" where
  "constructor_writes cfg =
     [SetPlanView (cfg ''planView''),
      SetFirstPerson (cfg ''firstPerson''),
      SetConstrainVertical (cfg ''constrainVertical''),
      SetKeyboardLayout (cfg ''keyboardLayout''),
      SetDoublePickFlyTo (cfg ''doublePickFlyTo''),
      SetPanRightClick (cfg ''panRightClick''),
      SetActive (cfg ''active''),
      SetPivoting (cfg ''pivoting''),
      SetDollyToPointer (cfg ''dollyToPointer''),
      SetDollyToPivot (cfg ''dollyToPivot''),
      SetRotationInertia (cfg ''rotationInertia''),
      SetDollyInertia (cfg ''dollyInertia''),
      SetPointerEnabled (JBool True),
      SetDollyRate (cfg ''dollyRate'')]"

definition constructor ::
  "(string \<Rightarrow> jsval) \<Rightarrow> 't handler list \<Rightarrow> pivot_controller \<Rightarrow> 't camera_control" where
  "constructor cfg hs pc =
     do_writes (constructor_writes cfg)
       \<lparr>configs = initial_configs, states = initial_states, updates = initial_updates,
        handlers = hs, pivotController = pc, errors = []\<rparr>"

section \<open>Tap recognition and inertia decay\<close>

text \<open>
  Modelled from the spec: the tap classification of the pick handlers
  (\<^verbatim>\<open>lib/handlers/MousePickHandler.js\<close> and \<^verbatim>\<open>TouchPickHandler.js\<close> are not among the
  sources). On pointer-up the press and release are a tap if the displacement is below
  \<^verbatim>\<open>tapDistanceThreshold\<close> and the duration below \<^verbatim>\<open>tapInterval\<close>. The displacement in
  pixels and the two times in milliseconds are given.
\<close>

definition is_tap :: "nav_configs \<Rightarrow> real \<Rightarrow> real \<Rightarrow> real \<Rightarrow> bool" where
  "is_tap c displacement downTime upTime =
     (displacement < tapDistanceThreshold c \<and> upTime - downTime < tapInterval c)"

text \<open>
  Modelled from the spec: one tick of \<^verbatim>\<open>CameraUpdater\<close> on one pending delta with no new
  input (\<^verbatim>\<open>lib/CameraUpdater.js\<close> is not among the sources). If the inertia factor is above
  zero the residual of the previous tick is scaled by it, else it is discarded; a residual
  whose magnitude is below the epsilon is zeroed. Numbers are real numbers here, not
  doubles, and the epsilon, which the spec does not give, is a parameter.
\<close>

definition decay_tick :: "real \<Rightarrow> real \<Rightarrow> real \<Rightarrow> real" where
  "decay_tick eps f residual =
     (let r = (if 0 < f then residual * f else 0)
      in if \<bar>r\<bar> < eps then 0 else r)"

primrec residual_after :: "nat \<Rightarrow> real \<Rightarrow> real \<Rightarrow> real \<Rightarrow> real" where
  "residual_after 0 eps f d = d"
| "residual_after (Suc n) eps f d = decay_tick eps f (residual_after n eps f d)"

section \<open>SpotLight\<close>

text \<open>
  \<^verbatim>\<open>this._state\<close> of a \<^verbatim>\<open>SpotLight\<close>, the fields of the light itself, and the calls it
  has made to \<^verbatim>\<open>glRedraw\<close> and \<^verbatim>\<open>fire\<close> (methods of \<^verbatim>\<open>Component\<close>, which is not among
  the sources), oldest first.
\<close>

record render_state =
  lightType :: string
  pos :: "real list"
  dir :: "real list"
  color :: "real list"
  intensity :: jsval
  attenuation :: "jsval list"
  space :: jsval
  castShadow :: jsval
  shadowDirty :: bool

datatype component_call = GlRedraw | Fire string jsval

record spot_light =
  shadowRenderBuf :: "nat option"
  shadowViewMatrix :: "real list option"
  shadowProjMatrix :: "real list option"
  shadowViewMatrixDirty :: bool
  shadowProjMatrixDirty :: bool
  state :: render_state
  calls :: "component_call list"

definition set_castShadow :: "jsval \<Rightarrow> spot_light \<Rightarrow> spot_light" where
  "set_castShadow v s =
     (let v1 = not_not v
      in if strict_eq (castShadow (state s)) v1 then s
         else s\<lparr>state := (state s)\<lparr>castShadow := v1\<rparr>,
                shadowViewMatrixDirty := True,
                calls := calls s @ [GlRedraw, Fire ''dirty'' (JBool True)]\<rparr>)"

section \<open>Invariants and example states\<close>

text \<open>The two dolly modes are never both on.\<close>

definition dolly_exclusive :: "nav_configs \<Rightarrow> bool" where
  "dolly_exclusive c = (\<not> (truthy (dollyToPointer c) \<and> truthy (dollyToPivot c)))"

text \<open>The ten flags of the configuration hold booleans.\<close>

definition boolean_fields :: "nav_configs \<Rightarrow> bool" where
  "boolean_fields c =
     (is_boolean (active c) \<and> is_boolean (pointerEnabled c) \<and> is_boolean (pivoting c) \<and>
      is_boolean (dollyToPointer c) \<and> is_boolean (dollyToPivot c) \<and>
      is_boolean (planView c) \<and> is_boolean (firstPerson c) \<and>
      is_boolean (constrainVertical c) \<and> is_boolean (doublePickFlyTo c) \<and>
      is_boolean (panRightClick c))"

text \<open>In first-person mode the pivot is inactive and its indicator hidden.\<close>

definition firstPerson_pivot_inactive :: "'t camera_control \<Rightarrow> bool" where
  "firstPerson_pivot_inactive cc =
     (truthy (firstPerson (configs cc)) \<longrightarrow>
        pivotState (pivotController cc) = Inactive \<and>
        \<not> indicatorVisible (pivotController cc))"

text \<open>
  A control built with an empty configuration object, two handlers (one with a
  \<^verbatim>\<open>reset\<close> that clears its state, one without), and a pivot that is being dragged; and
  the same control while a dolly and a pan are pending.
\<close>

definition example_pivot :: pivot_controller where
  "example_pivot = \<lparr>pivotState = Dragging, pivotPos = [1, 2, 3], indicatorVisible = True\<rparr>"

definition example_handlers :: "nat handler list" where
  "example_handlers =
     [\<lparr>reset = Some (\<lambda>t. 0), transient = 7\<rparr>, \<lparr>reset = None, transient = 7\<rparr>]"

definition no_cfg :: "string \<Rightarrow> jsval" where
  "no_cfg p = JUndefined"

definition example_control :: "nat camera_control" where
  "example_control = constructor no_cfg example_handlers example_pivot"

definition dollying_control :: "nat camera_control" where
  "dollying_control =
     example_control\<lparr>updates := (updates example_control)
        \<lparr>rotateDeltaX := 2, panDeltaZ := 3, dollyDelta := 5\<rparr>\<rparr>"

text \<open>A light as \<^verbatim>\<open>init\<close> leaves it for an empty configuration object: the setters of
  \<^verbatim>\<open>pos\<close>, \<^verbatim>\<open>color\<close>, \<^verbatim>\<open>intensity\<close> and the three attenuations have each asked for
  a redraw, and shadows are off.\<close>

definition example_light :: spot_light where
  "example_light =
     \<lparr>shadowRenderBuf = None, shadowViewMatrix = None, shadowProjMatrix = None,
      shadowViewMatrixDirty = True, shadowProjMatrixDirty = True,
      state = \<lparr>lightType = ''spot'', pos = [1, 1, 1], dir = [0, - 1, 0],
               color = [0.7, 0.7, 0.8], intensity = JNum 1,
               attenuation = [JNum 0, JNum 0, JNum 0], space = JStr ''view'',
               castShadow = JBool False, shadowDirty = True\<rparr>,
      calls = [GlRedraw, GlRedraw, GlRedraw, GlRedraw, GlRedraw, GlRedraw]\<rparr>"

section \<open>Basic facts\<close>

lemmas setter_defs =
  set_active_def set_pointerEnabled_def set_pivoting_def set_dollyToPointer_def
  set_dollyToPivot_def set_planView_def set_firstPerson_def set_constrainVertical_def
  set_doublePickFlyTo_def set_panRightClick_def set_rotationInertia_def set_dollyRate_def
  set_dollyInertia_def set_keyboardLayout_def

lemmas js_defs = not_not_def strict_neq_def strict_eq_def js_or_def

lemma CameraControl_reset_updates:
  "updates (CameraControl_reset cc) =
     (updates cc)\<lparr>panDeltaX := 0, panDeltaY := 0, rotateDeltaX := 0, rotateDeltaY := 0,
                   dolyDelta := Some 0\<rparr>"
  by (simp add: CameraControl_reset_def)

lemma CameraControl_reset_keeps:
  "dollyDelta (updates (CameraControl_reset cc)) = dollyDelta (updates cc)
   \<and> panDeltaZ (updates (CameraControl_reset cc)) = panDeltaZ (updates cc)
   \<and> configs (CameraControl_reset cc) = configs cc
   \<and> states (CameraControl_reset cc) = states cc
   \<and> pivotController (CameraControl_reset cc) = pivotController cc
   \<and> errors (CameraControl_reset cc) = errors cc"
  by (simp add: CameraControl_reset_def)

lemma example_control_eq:
  "example_control =
     \<lparr>configs = initial_configs\<lparr>rotationInertia := JNum 0.5, dollyInertia := JNum 0.5\<rparr>,
      states = initial_states,
      updates = initial_updates\<lparr>dolyDelta := Some 0\<rparr>,
      handlers = [\<lparr>reset = Some (\<lambda>t. 0), transient = 0\<rparr>, \<lparr>reset = None, transient = 7\<rparr>],
      pivotController = example_pivot, errors = []\<rparr>"
  by (simp add: example_control_def constructor_def constructor_writes_def no_cfg_def
      example_handlers_def setter_defs js_defs CameraControl_reset_def reset_handler_def
      initial_configs_def initial_updates_def Let_def)

subsection \<open>What every sequence of writes preserves\<close>

lemma do_write_dolly_exclusive:
  "dolly_exclusive (configs cc) \<Longrightarrow> dolly_exclusive (configs (do_write c cc))"
  by (cases c)
    (simp_all add: dolly_exclusive_def setter_defs js_defs CameraControl_reset_def Let_def)

lemma do_writes_dolly_exclusive:
  "dolly_exclusive (configs cc) \<Longrightarrow> dolly_exclusive (configs (do_writes cs cc))"
  by (induction cs arbitrary: cc) (simp_all add: do_write_dolly_exclusive)

lemma constructor_dolly_exclusive: "dolly_exclusive (configs (constructor cfg hs pc))"
  unfolding constructor_def
  by (rule do_writes_dolly_exclusive) (simp add: dolly_exclusive_def initial_configs_def)

lemma do_write_boolean_fields:
  "boolean_fields (configs cc) \<Longrightarrow> boolean_fields (configs (do_write c cc))"
  by (cases c)
    (simp_all add: boolean_fields_def is_boolean_def setter_defs js_defs
      CameraControl_reset_def Let_def)

lemma do_writes_boolean_fields:
  "boolean_fields (configs cc) \<Longrightarrow> boolean_fields (configs (do_writes cs cc))"
  by (induction cs arbitrary: cc) (simp_all add: do_write_boolean_fields)

lemma constructor_boolean_fields: "boolean_fields (configs (constructor cfg hs pc))"
  unfolding constructor_def
  by (rule do_writes_boolean_fields)
    (simp add: boolean_fields_def is_boolean_def initial_configs_def)

lemma do_write_firstPerson_pivot:
  "firstPerson_pivot_inactive cc \<Longrightarrow> firstPerson_pivot_inactive (do_write c cc)"
  by (cases c)
    (simp_all add: firstPerson_pivot_inactive_def setter_defs js_defs
      CameraControl_reset_def hidePivot_def endPivot_def Let_def)

lemma do_writes_firstPerson_pivot:
  "firstPerson_pivot_inactive cc \<Longrightarrow> firstPerson_pivot_inactive (do_writes cs cc)"
  by (induction cs arbitrary: cc) (simp_all add: do_write_firstPerson_pivot)

lemma constructor_firstPerson_pivot: "firstPerson_pivot_inactive (constructor cfg hs pc)"
  unfolding constructor_def
  by (rule do_writes_firstPerson_pivot)
    (simp add: firstPerson_pivot_inactive_def initial_configs_def)

lemma do_write_dollyRate_truthy:
  "truthy (dollyRate (configs cc)) \<Longrightarrow> truthy (dollyRate (configs (do_write c cc)))"
  by (cases c) (simp_all add: setter_defs js_defs CameraControl_reset_def Let_def)

lemma do_writes_dollyRate_truthy:
  "truthy (dollyRate (configs cc)) \<Longrightarrow> truthy (dollyRate (configs (do_writes cs cc)))"
  by (induction cs arbitrary: cc) (simp_all add: do_write_dollyRate_truthy)

lemma constructor_dollyRate_truthy: "truthy (dollyRate (configs (constructor cfg hs pc)))"
  unfolding constructor_def
  by (rule do_writes_dollyRate_truthy) (simp add: initial_configs_def)

lemma do_write_thresholds:
  "tapInterval (configs (do_write c cc)) = tapInterval (configs cc)
   \<and> tapDistanceThreshold (configs (do_write c cc)) = tapDistanceThreshold (configs cc)"
  by (cases c) (simp_all add: setter_defs js_defs CameraControl_reset_def Let_def)

lemma do_writes_thresholds:
  "tapInterval (configs (do_writes cs cc)) = tapInterval (configs cc)
   \<and> tapDistanceThreshold (configs (do_writes cs cc)) = tapDistanceThreshold (configs cc)"
  by (induction cs arbitrary: cc) (simp_all add: do_write_thresholds)

lemma constructor_thresholds:
  "tapInterval (configs (do_writes cs (constructor cfg hs pc))) = 150
   \<and> tapDistanceThreshold (configs (do_writes cs (constructor cfg hs pc))) = 4"
  by (simp add: do_writes_thresholds constructor_def initial_configs_def)

section \<open>The setters of CameraControl\<close>

text \<open>
  Claim C1 says that switching \<^verbatim>\<open>active\<close> off and on again leaves all six pending deltas
  at zero. \<^verbatim>\<open>_reset\<close> zeroes four of them: it assigns to \<^verbatim>\<open>dolyDelta\<close>, not
  \<^verbatim>\<open>dollyDelta\<close>, and never to \<^verbatim>\<open>panDeltaZ\<close>. With a rotation of 2, a pan of 3 along Z
  and a dolly of 5 pending, the two writes zero the rotation, keep the pan and the dolly,
  and leave a new property \<^verbatim>\<open>dolyDelta\<close> of 0.
\<close>

theorem reset_keeps_dollyDelta:
  "rotateDeltaX (updates dollying_control) = 2
   \<and> rotateDeltaX (updates (set_active (JBool True)
        (set_active (JBool False) dollying_control))) = 0
   \<and> dollyDelta (updates (set_active (JBool True)
        (set_active (JBool False) dollying_control))) = 5
   \<and> panDeltaZ (updates (set_active (JBool True)
        (set_active (JBool False) dollying_control))) = 3
   \<and> dolyDelta (updates (set_active (JBool True)
        (set_active (JBool False) dollying_control))) = Some 0"
  by (simp add: dollying_control_def set_active_def CameraControl_reset_def Let_def)

text \<open>
  Claim C2: \<^verbatim>\<open>dollyToPointer\<close> and \<^verbatim>\<open>dollyToPivot\<close> are mutually exclusive. After the
  constructor and any sequence of writes the two are never both true; writing a truthy
  value to either stores true there and false in the other; and writing true to one and
  then to the other leaves the first false.
\<close>

theorem dolly_flags_mutually_exclusive:
  "dolly_exclusive (configs (do_writes cs (constructor cfg hs pc)))
   \<and> (truthy v \<longrightarrow>
        dollyToPointer (configs (set_dollyToPointer v cc)) = JBool True \<and>
        dollyToPivot (configs (set_dollyToPointer v cc)) = JBool False)
   \<and> (truthy v \<longrightarrow>
        dollyToPivot (configs (set_dollyToPivot v cc)) = JBool True \<and>
        dollyToPointer (configs (set_dollyToPivot v cc)) = JBool False)
   \<and> dollyToPointer (configs (set_dollyToPivot (JBool True)
        (set_dollyToPointer (JBool True) cc))) = JBool False
   \<and> dollyToPivot (configs (set_dollyToPointer (JBool True)
        (set_dollyToPivot (JBool True) cc))) = JBool False"
proof -
  have "dolly_exclusive (configs (do_writes cs (constructor cfg hs pc)))"
    by (rule do_writes_dolly_exclusive) (rule constructor_dolly_exclusive)
  then show ?thesis
    by (simp add: set_dollyToPointer_def set_dollyToPivot_def js_defs Let_def)
qed

theorem dolly_flags_mutually_exclusive_witness:
  "truthy (JNum 1)
   \<and> dollyToPivot (configs (set_dollyToPivot (JBool True) example_control)) = JBool True
   \<and> dollyToPointer (configs (set_dollyToPointer (JNum 1)
        (set_dollyToPivot (JBool True) example_control))) = JBool True
   \<and> dollyToPivot (configs (set_dollyToPointer (JNum 1)
        (set_dollyToPivot (JBool True) example_control))) = JBool False
   \<and> dollyToPointer (configs (set_dollyToPivot (JNum 1)
        (set_dollyToPointer (JBool True) example_control))) = JBool False
   \<and> dolly_exclusive (configs
        (do_writes [SetDollyToPointer (JBool True), SetDollyToPivot (JBool True)]
           (constructor no_cfg example_handlers example_pivot)))"
  using
    dolly_flags_mutually_exclusive
      [of "[SetDollyToPointer (JBool True), SetDollyToPivot (JBool True)]"
        no_cfg example_handlers example_pivot "JNum 1"
        "set_dollyToPivot (JBool True) example_control"]
    dolly_flags_mutually_exclusive
      [of "[]" no_cfg example_handlers example_pivot "JNum 1"
        "set_dollyToPointer (JBool True) example_control"]
  by (simp add: set_dollyToPivot_def js_defs Let_def)

text \<open>
  Claim C3: writing a truthy value to \<^verbatim>\<open>firstPerson\<close> stores true, hides the pivot
  indicator and ends pivoting, whatever the pivot state was; so after the write, and
  after the constructor and any sequence of writes, first-person mode implies an
  inactive pivot with a hidden indicator.
\<close>

theorem firstPerson_forces_pivot_inactive:
  "(truthy v \<longrightarrow>
      firstPerson (configs (set_firstPerson v cc)) = JBool True \<and>
      pivotState (pivotController (set_firstPerson v cc)) = Inactive \<and>
      \<not> indicatorVisible (pivotController (set_firstPerson v cc)))
   \<and> (firstPerson (configs (set_firstPerson v cc)) = JBool True \<longrightarrow>
      pivotState (pivotController (set_firstPerson v cc)) = Inactive \<and>
      \<not> indicatorVisible (pivotController (set_firstPerson v cc)))
   \<and> firstPerson_pivot_inactive (do_writes cs (constructor cfg hs pc))"
proof -
  have "firstPerson_pivot_inactive (do_writes cs (constructor cfg hs pc))"
    by (rule do_writes_firstPerson_pivot) (rule constructor_firstPerson_pivot)
  then show ?thesis
    by (simp add: set_firstPerson_def not_not_def hidePivot_def endPivot_def Let_def)
qed

theorem firstPerson_forces_pivot_inactive_witness:
  "truthy (JBool True)
   \<and> pivotState (pivotController example_control) = Dragging
   \<and> indicatorVisible (pivotController example_control)
   \<and> firstPerson (configs (set_firstPerson (JBool True) example_control)) = JBool True
   \<and> pivotState (pivotController (set_firstPerson (JBool True) example_control)) = Inactive
   \<and> \<not> indicatorVisible (pivotController (set_firstPerson (JBool True) example_control))
   \<and> truthy (firstPerson (configs
        (do_writes [SetFirstPerson (JNum 1), SetPivoting (JBool True)] example_control)))
   \<and> pivotState (pivotController
        (do_writes [SetFirstPerson (JNum 1), SetPivoting (JBool True)] example_control))
       = Inactive"
  using
    firstPerson_forces_pivot_inactive
      [of "JBool True" example_control
        "[SetFirstPerson (JNum 1), SetPivoting (JBool True)]"
        no_cfg example_handlers example_pivot]
  by (simp add: firstPerson_pivot_inactive_def example_control_def [symmetric]
      example_control_eq example_pivot_def set_firstPerson_def set_pivoting_def
      not_not_def Let_def)

text \<open>
  Claim C4 says that every value other than \<^verbatim>\<open>"qwerty"\<close> and \<^verbatim>\<open>"azerty"\<close> written to
  \<^verbatim>\<open>keyboardLayout\<close> is answered with a warning. A falsy value is not:
  \<^verbatim>\<open>undefined\<close> is neither of the two strings, and the setter stores \<^verbatim>\<open>"qwerty"\<close> for it
  without a message.
\<close>

theorem keyboardLayout_falsy_counterexample:
  "JUndefined \<noteq> JStr ''qwerty'' \<and> JUndefined \<noteq> JStr ''azerty''
   \<and> keyboardLayout (configs (set_keyboardLayout JUndefined example_control)) = JStr ''qwerty''
   \<and> errors (set_keyboardLayout JUndefined example_control) = errors example_control"
  by (simp add: set_keyboardLayout_def js_defs Let_def)

text \<open>
  Claim C4, amended: a truthy value that is neither \<^verbatim>\<open>"qwerty"\<close> nor \<^verbatim>\<open>"azerty"\<close> leaves
  \<^verbatim>\<open>keyboardLayout\<close> at \<^verbatim>\<open>"qwerty"\<close> and logs one message; either of the two strings is
  stored with no message; a falsy value stores \<^verbatim>\<open>"qwerty"\<close> with no message.
\<close>

theorem keyboardLayout_validated:
  "(truthy v \<and> v \<noteq> JStr ''qwerty'' \<and> v \<noteq> JStr ''azerty'' \<longrightarrow>
      keyboardLayout (configs (set_keyboardLayout v cc)) = JStr ''qwerty'' \<and>
      errors (set_keyboardLayout v cc) = errors cc @ [unsupported_keyboardLayout])
   \<and> (v = JStr ''qwerty'' \<or> v = JStr ''azerty'' \<longrightarrow>
      keyboardLayout (configs (set_keyboardLayout v cc)) = v \<and>
      errors (set_keyboardLayout v cc) = errors cc)
   \<and> (\<not> truthy v \<longrightarrow>
      keyboardLayout (configs (set_keyboardLayout v cc)) = JStr ''qwerty'' \<and>
      errors (set_keyboardLayout v cc) = errors cc)"
  by (auto simp add: set_keyboardLayout_def js_defs Let_def)

theorem keyboardLayout_validated_witness:
  "truthy (JStr ''dvorak'')
   \<and> JStr ''dvorak'' \<noteq> JStr ''qwerty'' \<and> JStr ''dvorak'' \<noteq> JStr ''azerty''
   \<and> keyboardLayout (configs (set_keyboardLayout (JStr ''dvorak'') example_control))
       = JStr ''qwerty''
   \<and> errors (set_keyboardLayout (JStr ''dvorak'') example_control)
       = [unsupported_keyboardLayout]
   \<and> keyboardLayout (configs (set_keyboardLayout (JStr ''azerty'') example_control))
       = JStr ''azerty''
   \<and> errors (set_keyboardLayout (JStr ''azerty'') example_control) = []
   \<and> \<not> truthy JNull
   \<and> keyboardLayout (configs (set_keyboardLayout JNull example_control)) = JStr ''qwerty''
   \<and> errors (set_keyboardLayout JNull example_control) = []"
  using keyboardLayout_validated [of "JStr ''dvorak''" example_control]
    keyboardLayout_validated [of "JStr ''azerty''" example_control]
    keyboardLayout_validated [of JNull example_control]
  by (simp add: example_control_eq)

text \<open>
  Claim C5 says that, \<^verbatim>\<open>active\<close> and \<^verbatim>\<open>pointerEnabled\<close> apart, a setter changes nothing
  outside its own configuration field. Writing true to \<^verbatim>\<open>dollyToPointer\<close> changes
  \<^verbatim>\<open>dollyToPivot\<close> from true to false, and writing \<^verbatim>\<open>"dvorak"\<close> to \<^verbatim>\<open>keyboardLayout\<close>
  adds a message to the log.
\<close>

theorem setter_side_effect_counterexample:
  "dollyToPivot (configs (set_dollyToPivot (JBool True) example_control)) = JBool True
   \<and> dollyToPivot (configs (set_dollyToPointer (JBool True)
        (set_dollyToPivot (JBool True) example_control))) = JBool False
   \<and> errors example_control = []
   \<and> errors (set_keyboardLayout (JStr ''dvorak'') example_control)
       = [unsupported_keyboardLayout]"
  by (simp add: example_control_eq set_dollyToPivot_def set_dollyToPointer_def
      set_keyboardLayout_def js_defs Let_def)

text \<open>
  Claim C5, amended: the setters of \<^verbatim>\<open>active\<close> and \<^verbatim>\<open>pointerEnabled\<close> run \<^verbatim>\<open>_reset()\<close>
  and then change their own field only; the setters of \<^verbatim>\<open>dollyToPointer\<close> and
  \<^verbatim>\<open>dollyToPivot\<close> store the truthiness of the value and, when it is true, false in the
  other flag; the setter of \<^verbatim>\<open>firstPerson\<close> stores the truthiness of the value and, when
  it is true, hides the pivot and ends pivoting; the setter of \<^verbatim>\<open>keyboardLayout\<close> changes
  its own field and the log; each of the eight other setters changes its own field only.
\<close>

theorem setter_frames:
  "set_active v cc =
     (CameraControl_reset cc)
       \<lparr>configs := (configs cc)\<lparr>active := active (configs (set_active v cc))\<rparr>\<rparr>
   \<and> set_pointerEnabled v cc =
     (CameraControl_reset cc)
       \<lparr>configs := (configs cc)
          \<lparr>pointerEnabled := pointerEnabled (configs (set_pointerEnabled v cc))\<rparr>\<rparr>
   \<and> set_dollyToPointer v cc =
     cc\<lparr>configs := (configs cc)
          \<lparr>dollyToPointer := JBool (truthy v),
           dollyToPivot := (if truthy v then JBool False else dollyToPivot (configs cc))\<rparr>\<rparr>
   \<and> set_dollyToPivot v cc =
     cc\<lparr>configs := (configs cc)
          \<lparr>dollyToPivot := JBool (truthy v),
           dollyToPointer := (if truthy v then JBool False else dollyToPointer (configs cc))\<rparr>\<rparr>
   \<and> set_firstPerson v cc =
     cc\<lparr>configs := (configs cc)\<lparr>firstPerson := JBool (truthy v)\<rparr>,
        pivotController := (if truthy v then endPivot (hidePivot (pivotController cc))
                            else pivotController cc)\<rparr>
   \<and> set_keyboardLayout v cc =
     cc\<lparr>configs := (configs cc)
          \<lparr>keyboardLayout := keyboardLayout (configs (set_keyboardLayout v cc))\<rparr>,
        errors := errors (set_keyboardLayout v cc)\<rparr>
   \<and> set_pivoting v cc =
     cc\<lparr>configs := (configs cc)\<lparr>pivoting := pivoting (configs (set_pivoting v cc))\<rparr>\<rparr>
   \<and> set_planView v cc =
     cc\<lparr>configs := (configs cc)\<lparr>planView := planView (configs (set_planView v cc))\<rparr>\<rparr>
   \<and> set_constrainVertical v cc =
     cc\<lparr>configs := (configs cc)
          \<lparr>constrainVertical := constrainVertical (configs (set_constrainVertical v cc))\<rparr>\<rparr>
   \<and> set_doublePickFlyTo v cc =
     cc\<lparr>configs := (configs cc)
          \<lparr>doublePickFlyTo := doublePickFlyTo (configs (set_doublePickFlyTo v cc))\<rparr>\<rparr>
   \<and> set_panRightClick v cc =
     cc\<lparr>configs := (configs cc)
          \<lparr>panRightClick := panRightClick (configs (set_panRightClick v cc))\<rparr>\<rparr>
   \<and> set_rotationInertia v cc =
     cc\<lparr>configs := (configs cc)
          \<lparr>rotationInertia := rotationInertia (configs (set_rotationInertia v cc))\<rparr>\<rparr>
   \<and> set_dollyRate v cc =
     cc\<lparr>configs := (configs cc)\<lparr>dollyRate := dollyRate (configs (set_dollyRate v cc))\<rparr>\<rparr>
   \<and> set_dollyInertia v cc =
     cc\<lparr>configs := (configs cc)
          \<lparr>dollyInertia := dollyInertia (configs (set_dollyInertia v cc))\<rparr>\<rparr>"
  by (simp add: setter_defs js_defs CameraControl_reset_def Let_def)

text \<open>
  Claim C8: after a write to \<^verbatim>\<open>dollyRate\<close> the stored value is not zero: a falsy value
  stores 10, a truthy value is stored as it is. The same holds after the constructor and
  any sequence of writes.
\<close>

theorem dollyRate_never_zero:
  "dollyRate (configs (set_dollyRate v cc)) \<noteq> JNum 0
   \<and> (\<not> truthy v \<longrightarrow> dollyRate (configs (set_dollyRate v cc)) = JNum 10)
   \<and> (truthy v \<longrightarrow> dollyRate (configs (set_dollyRate v cc)) = v)
   \<and> dollyRate (configs (do_writes cs (constructor cfg hs pc))) \<noteq> JNum 0"
proof -
  have "truthy (dollyRate (configs (do_writes cs (constructor cfg hs pc))))"
    by (rule do_writes_dollyRate_truthy) (rule constructor_dollyRate_truthy)
  then have "dollyRate (configs (do_writes cs (constructor cfg hs pc))) \<noteq> JNum 0"
    by auto
  then show ?thesis
    by (auto simp add: set_dollyRate_def js_or_def)
qed

theorem dollyRate_never_zero_witness:
  "\<not> truthy (JNum 0)
   \<and> dollyRate (configs (set_dollyRate (JNum 0) example_control)) = JNum 10
   \<and> \<not> truthy JNull
   \<and> dollyRate (configs (set_dollyRate JNull example_control)) = JNum 10
   \<and> \<not> truthy JUndefined
   \<and> dollyRate (configs (set_dollyRate JUndefined example_control)) = JNum 10
   \<and> \<not> truthy JNaN
   \<and> dollyRate (configs (set_dollyRate JNaN example_control)) = JNum 10
   \<and> truthy (JNum 25)
   \<and> dollyRate (configs (set_dollyRate (JNum 25) example_control)) = JNum 25"
  using
    dollyRate_never_zero
      [of "JNum 0" example_control "[]" no_cfg example_handlers example_pivot]
    dollyRate_never_zero
      [of JNull example_control "[]" no_cfg example_handlers example_pivot]
    dollyRate_never_zero
      [of JUndefined example_control "[]" no_cfg example_handlers example_pivot]
    dollyRate_never_zero
      [of JNaN example_control "[]" no_cfg example_handlers example_pivot]
    dollyRate_never_zero
      [of "JNum 25" example_control "[]" no_cfg example_handlers example_pivot]
  by simp

text \<open>
  Claim C9: the setters of \<^verbatim>\<open>pivoting\<close>, \<^verbatim>\<open>planView\<close>, \<^verbatim>\<open>firstPerson\<close>,
  \<^verbatim>\<open>constrainVertical\<close>, \<^verbatim>\<open>dollyToPointer\<close>, \<^verbatim>\<open>dollyToPivot\<close> and \<^verbatim>\<open>pointerEnabled\<close> store
  the truthiness of their argument; those of \<^verbatim>\<open>active\<close>, \<^verbatim>\<open>doublePickFlyTo\<close> and
  \<^verbatim>\<open>panRightClick\<close> store true for every argument but \<^verbatim>\<open>false\<close>, \<^verbatim>\<open>undefined\<close> included;
  and after the constructor and any sequence of writes each of the ten fields holds a
  boolean.
\<close>

theorem boolean_fields_strict:
  "pivoting (configs (set_pivoting v cc)) = JBool (truthy v)
   \<and> planView (configs (set_planView v cc)) = JBool (truthy v)
   \<and> firstPerson (configs (set_firstPerson v cc)) = JBool (truthy v)
   \<and> constrainVertical (configs (set_constrainVertical v cc)) = JBool (truthy v)
   \<and> dollyToPointer (configs (set_dollyToPointer v cc)) = JBool (truthy v)
   \<and> dollyToPivot (configs (set_dollyToPivot v cc)) = JBool (truthy v)
   \<and> pointerEnabled (configs (set_pointerEnabled v cc)) = JBool (truthy v)
   \<and> active (configs (set_active v cc)) = JBool (v \<noteq> JBool False)
   \<and> doublePickFlyTo (configs (set_doublePickFlyTo v cc)) = JBool (v \<noteq> JBool False)
   \<and> panRightClick (configs (set_panRightClick v cc)) = JBool (v \<noteq> JBool False)
   \<and> active (configs (set_active JUndefined cc)) = JBool True
   \<and> boolean_fields (configs (do_writes cs (constructor cfg hs pc)))"
proof -
  have "boolean_fields (configs (do_writes cs (constructor cfg hs pc)))"
    by (rule do_writes_boolean_fields) (rule constructor_boolean_fields)
  then show ?thesis
    by (auto simp add: setter_defs js_defs CameraControl_reset_def Let_def)
qed

section \<open>Properties of tap recognition and inertia decay\<close>

text \<open>
  Claim C7: a press and release are a tap exactly when the displacement is below
  \<^verbatim>\<open>tapDistanceThreshold\<close> and the duration below \<^verbatim>\<open>tapInterval\<close>. No setter writes
  \<^verbatim>\<open>tapInterval\<close>, so it is the constructor's 150 after any sequence of writes; with it a
  press at 0 released at 100 without displacement is a tap, and one released at 200 is
  not.
\<close>

theorem tap_classification:
  "is_tap c displacement downTime upTime =
     (displacement < tapDistanceThreshold c \<and> upTime - downTime < tapInterval c)
   \<and> tapInterval (configs (do_writes cs (constructor cfg hs pc))) = 150
   \<and> is_tap (configs (do_writes cs (constructor cfg hs pc))) 0 0 100
   \<and> \<not> is_tap (configs (do_writes cs (constructor cfg hs pc))) 0 0 200"
  by (simp add: is_tap_def constructor_thresholds)

subsection \<open>Decay of a residual\<close>

lemma decay_tick_zero_factor: "0 < eps \<Longrightarrow> decay_tick eps 0 r = 0"
  by (simp add: decay_tick_def)

lemma decay_tick_pos_factor:
  "0 < f \<Longrightarrow> decay_tick eps f r = (if \<bar>r * f\<bar> < eps then 0 else r * f)"
  by (simp add: decay_tick_def)

text \<open>The residual after \<open>n\<close> ticks is the geometric term until the first tick whose term
  is below the epsilon, and zero from then on.\<close>

lemma residual_after_closed_form:
  assumes "0 < eps" and "0 \<le> f" and "f < 1"
  shows "residual_after n eps f d =
           (if 0 < n \<and> \<bar>d * f ^ n\<bar> < eps then 0 else d * f ^ n)"
proof (induction n)
  case 0
  show ?case by simp
next
  case (Suc n)
  show ?case
  proof (cases "0 < f")
    case False
    with assms have "f = 0" by simp
    with assms show ?thesis by (simp add: decay_tick_zero_factor)
  next
    case True
    have shrink: "\<bar>d * f ^ Suc n\<bar> \<le> \<bar>d * f ^ n\<bar>"
    proof -
      have "\<bar>d * f ^ Suc n\<bar> = \<bar>d * f ^ n\<bar> * f"
        using assms by (simp add: abs_mult)
      also have "\<dots> \<le> \<bar>d * f ^ n\<bar> * 1"
        using assms by (intro mult_left_mono) simp_all
      finally show ?thesis by simp
    qed
    show ?thesis
    proof (cases "0 < n \<and> \<bar>d * f ^ n\<bar> < eps")
      case True
      with Suc.IH have "residual_after n eps f d = 0" by simp
      moreover from True shrink have "\<bar>d * f ^ Suc n\<bar> < eps" by linarith
      ultimately show ?thesis
        using \<open>0 < f\<close> assms by (simp add: decay_tick_pos_factor)
    next
      case False
      with Suc.IH have "residual_after n eps f d = d * f ^ n" by auto
      then show ?thesis
        using \<open>0 < f\<close> by (simp add: decay_tick_pos_factor mult_ac)
    qed
  qed
qed

lemma residual_after_stays_zero:
  assumes "0 < eps" and "0 \<le> f" and "f < 1"
    and "\<bar>d\<bar> * f ^ N < eps" and "0 < N" and "N \<le> n"
  shows "residual_after n eps f d = 0"
proof -
  have "f ^ n \<le> f ^ N"
    using assms by (intro power_decreasing) simp_all
  then have "\<bar>d\<bar> * f ^ n \<le> \<bar>d\<bar> * f ^ N"
    by (intro mult_left_mono) simp_all
  with assms have "\<bar>d * f ^ n\<bar> < eps"
    by (simp add: abs_mult)
  moreover from assms have "0 < n" by simp
  ultimately show ?thesis
    using assms by (simp add: residual_after_closed_form)
qed

lemma decay_bound_exists:
  fixes eps f d :: real
  assumes "0 < eps" and "0 \<le> f" and "f < 1"
  shows "\<exists>N. 0 < N \<and> \<bar>d\<bar> * f ^ N < eps"
proof (cases "d = 0")
  case True
  with assms show ?thesis by (intro exI[of _ 1]) simp
next
  case False
  then have "0 < eps / \<bar>d\<bar>" using assms by simp
  from real_arch_pow_inv[OF this \<open>f < 1\<close>]
  obtain m where m: "f ^ m < eps / \<bar>d\<bar>" by blast
  have "f ^ Suc m \<le> f ^ m"
    using assms by (intro power_decreasing) simp_all
  with m have "f ^ Suc m < eps / \<bar>d\<bar>" by linarith
  with False have "\<bar>d\<bar> * f ^ Suc m < eps"
    by (simp add: field_simps)
  then show ?thesis by (intro exI[of _ "Suc m"]) simp
qed

text \<open>
  Claim C6: for an inertia factor \<open>f\<close> with \<open>0 \<le> f < 1\<close>, a positive epsilon and a nonzero
  initial delta, with no new input: from some tick on the residual is zero; at every tick
  it is the initial delta times \<open>f ^ n\<close> or zero, and within the epsilon of that product;
  and for \<open>f = 0\<close> it is nonzero before the first tick and zero after it.
\<close>

theorem inertia_decay_converges:
  assumes "0 < eps" and "0 \<le> f" and "f < 1" and "d \<noteq> 0"
  shows "(\<exists>N. \<forall>n. N \<le> n \<longrightarrow> residual_after n eps f d = 0)
       \<and> (\<forall>n. \<bar>residual_after n eps f d - d * f ^ n\<bar> < eps)
       \<and> (\<forall>n. residual_after n eps f d = d * f ^ n \<or> residual_after n eps f d = 0)
       \<and> (f = 0 \<longrightarrow> residual_after 0 eps f d \<noteq> 0 \<and> residual_after 1 eps f d = 0)"
proof (intro conjI allI)
  from decay_bound_exists[OF assms(1-3), of d]
  obtain N where "0 < N" and "\<bar>d\<bar> * f ^ N < eps" by blast
  then have "\<forall>n. N \<le> n \<longrightarrow> residual_after n eps f d = 0"
    using assms by (simp add: residual_after_stays_zero)
  then show "\<exists>N. \<forall>n. N \<le> n \<longrightarrow> residual_after n eps f d = 0" ..
next
  fix n
  show "\<bar>residual_after n eps f d - d * f ^ n\<bar> < eps"
    using assms by (simp add: residual_after_closed_form)
next
  fix n
  show "residual_after n eps f d = d * f ^ n \<or> residual_after n eps f d = 0"
    using assms by (simp add: residual_after_closed_form)
next
  show "f = 0 \<longrightarrow> residual_after 0 eps f d \<noteq> 0 \<and> residual_after 1 eps f d = 0"
    using assms by (simp add: decay_tick_zero_factor)
qed

theorem inertia_decay_converges_witness:
  "(0::real) < 1 \<and> (0::real) \<le> 1 / 2 \<and> (1::real) / 2 < 1 \<and> (4::real) \<noteq> 0
   \<and> (\<exists>N. \<forall>n. N \<le> n \<longrightarrow> residual_after n 1 (1 / 2) 4 = 0)
   \<and> \<bar>residual_after 2 1 (1 / 2) 4 - 4 * (1 / 2) ^ 2\<bar> < 1
   \<and> residual_after 2 1 (1 / 2) 4 = 1
   \<and> residual_after 3 1 (1 / 2) 4 = 0
   \<and> residual_after 0 1 0 4 \<noteq> 0
   \<and> residual_after 1 1 0 4 = 0"
  using inertia_decay_converges [of 1 "1 / 2" 4] inertia_decay_converges [of 1 0 4]
  by (simp add: numeral_2_eq_2 numeral_3_eq_3 decay_tick_def)

section \<open>The castShadow setter of SpotLight\<close>

text \<open>
  Claim C10: writing to \<^verbatim>\<open>castShadow\<close> a value whose boolean coercion is the current
  value changes nothing: the light is as before, and so are its dirty flag and the calls
  it has made to \<^verbatim>\<open>glRedraw\<close> and \<^verbatim>\<open>fire\<close>. Writing a value twice, or a value and then one
  of the same truthiness, is writing it once.
\<close>

theorem castShadow_unchanged_noop:
  "(castShadow (state s) = JBool (truthy v) \<longrightarrow>
      set_castShadow v s = s \<and>
      shadowViewMatrixDirty (set_castShadow v s) = shadowViewMatrixDirty s \<and>
      calls (set_castShadow v s) = calls s)
   \<and> set_castShadow v (set_castShadow v s) = set_castShadow v s
   \<and> (truthy w = truthy v \<longrightarrow>
        set_castShadow w (set_castShadow v s) = set_castShadow v s)"
  by (simp add: set_castShadow_def js_defs Let_def)

theorem castShadow_unchanged_noop_witness:
  "castShadow (state example_light) = JBool (truthy (JNum 0))
   \<and> set_castShadow (JNum 0) example_light = example_light
   \<and> calls (set_castShadow (JNum 0) example_light) = calls example_light
   \<and> calls (set_castShadow (JNum 1) example_light)
       = calls example_light @ [GlRedraw, Fire ''dirty'' (JBool True)]
   \<and> truthy (JStr ''yes'') = truthy (JNum 1)
   \<and> set_castShadow (JStr ''yes'') (set_castShadow (JNum 1) example_light)
       = set_castShadow (JNum 1) example_light"
  using castShadow_unchanged_noop [of example_light "JNum 0"]
    castShadow_unchanged_noop [of example_light "JNum 1" "JStr ''yes''"]
  by (simp add: example_light_def set_castShadow_def js_defs Let_def)

end
